theory Spec2Isabelle
  imports Complex_Main "HOL-Library.Sublist"
begin

section \<open>Python strings\<close>

text \<open>
  A Python \<open>str\<close> is modelled as a \<open>string\<close>; a character stands for the code point
  of the same number, so the model covers the code points below 256.
\<close>

definition py_isspace :: "char \<Rightarrow> bool" where
  \<comment> \<open>the code points below 256 that \<open>str.split()\<close> treats as whitespace\<close>
  "py_isspace c =
     (let n = (of_char c :: nat)
      in (9 \<le> n \<and> n \<le> 13) \<or> (28 \<le> n \<and> n \<le> 32) \<or> n = 133 \<or> n = 160)"

fun split_ws :: "string \<Rightarrow> string \<Rightarrow> string list" where
  "split_ws w [] = (if w = [] then [] else [w])"
| "split_ws w (c # cs) =
     (if py_isspace c then (if w = [] then split_ws [] cs else w # split_ws [] cs)
      else split_ws (w @ [c]) cs)"

definition py_split :: "string \<Rightarrow> string list" where
  \<comment> \<open>\<open>s.split()\<close>: the maximal runs of non-whitespace characters\<close>
  "py_split s = split_ws [] s"

fun py_join :: "string \<Rightarrow> string list \<Rightarrow> string" where
  "py_join sep [] = []"
| "py_join sep [x] = x"
| "py_join sep (x # y # ys) = x @ sep @ py_join sep (y # ys)"

definition py_replace :: "char \<Rightarrow> char \<Rightarrow> string \<Rightarrow> string" where
  \<comment> \<open>\<open>s.replace(a, b)\<close> for one-character \<open>a\<close> and \<open>b\<close>\<close>
  "py_replace a b s = map (\<lambda>c. if c = a then b else c) s"

definition py_range :: "nat \<Rightarrow> nat \<Rightarrow> nat list" where
  \<comment> \<open>\<open>range(0, n, step)\<close> for a positive step\<close>
  "py_range n step = map (\<lambda>k. k * step) [0..<(n + step - 1) div step]"

definition py_slice :: "'a list \<Rightarrow> nat \<Rightarrow> nat \<Rightarrow> 'a list" where
  \<comment> \<open>\<open>xs[i:j]\<close> for \<open>0 \<le> i \<le> j\<close>; a slice never raises\<close>
  "py_slice xs i j = take (j - i) (drop i xs)"

definition digit_char :: "nat \<Rightarrow> char" where
  "digit_char d = char_of (48 + d)"

fun str_nat :: "nat \<Rightarrow> string" where
  "str_nat n = (if n < 10 then [digit_char n] else str_nat (n div 10) @ [digit_char (n mod 10)])"

declare str_nat.simps [simp del]

definition str_int :: "int \<Rightarrow> string" where
  "str_int i = (if i < 0 then CHR ''-'' # str_nat (nat (- i)) else str_nat (nat i))"

section \<open>Tables\<close>

text \<open>
  A cell of a table read from a spreadsheet: text, a whole number, or a missing value.
  Floating-point cells are left out of the model.
\<close>

datatype cell = StrCell string | IntCell int | NaN

fun py_str :: "cell \<Rightarrow> string" where
  "py_str (StrCell s) = s"
| "py_str (IntCell i) = str_int i"
| "py_str NaN = ''nan''"

section \<open>The label rewriting of the figure builder\<close>

definition wrap_label :: "cell \<Rightarrow> string" where
  "wrap_label text =
     (let clean = py_replace (CHR ''_'') (CHR '' '') (py_str text);
          words = py_split clean;
          lines = map (\<lambda>i. py_join '' '' (py_slice words i (i + 4))) (py_range (length words) 4)
      in py_join ''<br>'' lines)"


section \<open>Exceptions\<close>

text \<open>
  A raised exception is a value; a function that may raise returns \<open>exn + 'a\<close>, with
  \<open>Inl\<close> for the exception. \<open>Library_Error\<close> stands for every other subclass of
  \<open>Exception\<close> that a library may raise.
\<close>

datatype exn =
    ValueError string
  | Binascii_Error string
  | TypeError string
  | Library_Error string

fun exn_str :: "exn \<Rightarrow> string" where
  "exn_str (ValueError m) = m"
| "exn_str (Binascii_Error m) = m"
| "exn_str (TypeError m) = m"
| "exn_str (Library_Error m) = m"

section \<open>Data frames\<close>

text \<open>
  A data frame is the list of its columns in order, each a name with its cells.
  The spreadsheet parser gives every column of a frame the same number of cells.
\<close>

type_synonym dataframe = "(string \<times> cell list) list"

definition columns :: "dataframe \<Rightarrow> string list" where
  "columns df = map fst df"

definition df_empty :: "dataframe \<Rightarrow> bool" where
  \<comment> \<open>\<open>df.empty\<close>: no column or no row\<close>
  "df_empty df = (case df of [] \<Rightarrow> True | (c, col) # rest \<Rightarrow> col = [])"

fun set_col :: "dataframe \<Rightarrow> string \<Rightarrow> cell list \<Rightarrow> dataframe" where
  \<comment> \<open>\<open>df[c] = col\<close>: replaces the column in place, or appends a new one\<close>
  "set_col [] c col = [(c, col)]"
| "set_col ((k, old) # df) c col =
     (if k = c then (k, col) # df else (k, old) # set_col df c col)"

definition required_cols :: "string list" where
  "required_cols = [''Name of IRO'', ''Impact'', ''Risk'', ''Sub-Topic'']"

definition has_required :: "dataframe \<Rightarrow> bool" where
  \<comment> \<open>\<open>required_cols.issubset(df.columns)\<close>\<close>
  "has_required df = list_all (\<lambda>c. c \<in> set (columns df)) required_cols"

definition fallback_data :: dataframe where
  "fallback_data =
    [(''Name of IRO'', map StrCell
        [''Energy Efficiency'', ''Water Use'', ''Labor Practices'', ''GHG Emissions'',
         ''Diversity & Inclusion'', ''Product Safety'', ''Supply Chain Ethics'',
         ''Board Independence'', ''Climate Risk Strategy'', ''Customer Privacy'']),
     (''Impact'', map IntCell [4, 3, 5, 5, 2, 4, 3, 1, 5, 2]),
     (''Risk'', map IntCell [5, 2, 4, 5, 3, 3, 2, 1, 5, 4]),
     (''Sub-Topic'', map StrCell
        [''Environmental'', ''Environmental'', ''Social'', ''Environmental'',
         ''Social'', ''Social'', ''Social'', ''Governance'', ''Environmental'', ''Governance''])]"

definition init_df_default :: "exn + dataframe \<Rightarrow> dataframe" where
  \<comment> \<open>the module-level \<open>try\<close> block; the argument is the outcome of
      \<open>pd.read_excel(TEMPLATE_PATH)\<close>\<close>
  "init_df_default loaded =
     (case loaded of
        Inr df \<Rightarrow> if df_empty df \<or> \<not> has_required df then fallback_data else df
      | Inl e \<Rightarrow> fallback_data)"

section \<open>Charts\<close>

record marker =
  marker_size :: nat
  marker_line_width :: nat
  marker_opacity :: rat

record trace =
  trace_name :: string
  trace_x :: "cell list"
  trace_y :: "cell list"
  trace_hovertext :: "cell list"
  trace_marker :: "marker option"

record font =
  font_size :: nat
  font_family :: "string option"
  font_color :: "string option"

record legend =
  legend_font :: font
  legend_title_text :: string
  legend_title_font :: font
  legend_title_side :: string
  legend_x :: rat
  legend_xanchor :: string
  legend_y :: rat
  legend_yanchor :: string

record axis =
  axis_title :: string
  axis_range :: "rat list"
  fixedrange :: bool
  tickmode :: string
  tickvals :: "int list"
  ticktext :: "string list"
  gridcolor :: string
  gridwidth :: rat
  showgrid :: bool
  scaleanchor :: "string option"
  axis_layer :: string

record layout =
  template :: string
  autosize :: bool
  height :: nat
  width :: nat
  uirevision :: string
  margin_l :: nat
  margin_r :: nat
  margin_t :: nat
  margin_b :: nat
  layout_font :: font
  title_font :: font
  title_x :: rat
  layout_legend :: legend
  xaxis :: axis
  yaxis :: axis

text \<open>
  A figure: its title, its traces, and the layout that \<open>update_layout\<close> sets
  (\<open>None\<close> while the charting library's defaults stand).
\<close>

record figure =
  title_text :: string
  data :: "trace list"
  layout :: "layout option"

definition uniq :: "'a list \<Rightarrow> 'a list" where
  \<comment> \<open>the distinct values in order of first appearance\<close>
  "uniq xs = rev (remdups (rev xs))"

definition px_scatter ::
  "dataframe \<Rightarrow> string \<Rightarrow> string \<Rightarrow> string \<Rightarrow> string \<Rightarrow> string \<Rightarrow> exn + figure" where
  \<comment> \<open>\<open>px.scatter(df, x=, y=, color=, hover_name=, title=)\<close> for a colour column of
      strings: one trace per distinct colour value, holding the rows of that value; a
      \<open>ValueError\<close> when a named column is not in the frame\<close>
  "px_scatter df x y color hover_name title =
     (case (map_of df x, map_of df y, map_of df color, map_of df hover_name) of
        (Some xs, Some ys, Some cs, Some hs) \<Rightarrow>
          Inr \<lparr>title_text = title,
               data = map (\<lambda>l.
                   let rows = filter (\<lambda>(c, r). c = l) (zip cs (zip xs (zip ys hs)))
                   in \<lparr>trace_name = py_str l,
                       trace_x = map (\<lambda>(c, a, b, h). a) rows,
                       trace_y = map (\<lambda>(c, a, b, h). b) rows,
                       trace_hovertext = map (\<lambda>(c, a, b, h). h) rows,
                       trace_marker = None\<rparr>) (uniq cs),
               layout = None\<rparr>
      | _ \<Rightarrow> Inl (ValueError ''Value is not the name of a column in data_frame''))"

definition px_scatter_title :: "string \<Rightarrow> figure" where
  \<comment> \<open>\<open>px.scatter(title=t)\<close>: a chart made from no table, one trace without points\<close>
  "px_scatter_title t =
     \<lparr>title_text = t,
      data = [\<lparr>trace_name = [], trace_x = [], trace_y = [], trace_hovertext = [],
               trace_marker = None\<rparr>],
      layout = None\<rparr>"

definition update_traces :: "figure \<Rightarrow> figure" where
  \<comment> \<open>every trace of a scatter chart has mode \<open>markers\<close>, so the selector takes all\<close>
  "update_traces fig =
     fig\<lparr>data := map (\<lambda>t. t\<lparr>trace_marker :=
        Some \<lparr>marker_size = 12, marker_line_width = 0, marker_opacity = 1\<rparr>\<rparr>) (data fig)\<rparr>"

definition arial :: "nat \<Rightarrow> font" where
  "arial n = \<lparr>font_size = n, font_family = Some ''Arial'', font_color = Some ''#333''\<rparr>"

definition plain_font :: "nat \<Rightarrow> font" where
  "plain_font n = \<lparr>font_size = n, font_family = None, font_color = None\<rparr>"

definition update_layout :: "figure \<Rightarrow> figure" where
  "update_layout fig =
     fig\<lparr>layout := Some
       \<lparr>template = ''simple_white'',
        autosize = False,
        height = 620,
        width = 850,
        uirevision = ''static'',
        margin_l = 40, margin_r = 40, margin_t = 60, margin_b = 60,
        layout_font = arial 18,
        title_font = arial 20,
        title_x = 1 / 4,
        layout_legend =
          \<lparr>legend_font = plain_font 18,
           legend_title_text = ''<b>Sub-Topic<br>'',
           legend_title_font = plain_font 19,
           legend_title_side = ''top'',
           legend_x = 11 / 10,
           legend_xanchor = ''left'',
           legend_y = 1,
           legend_yanchor = ''top''\<rparr>,
        xaxis =
          \<lparr>axis_title = ''Financial Materiality (Risk or Opportunity)'',
           axis_range = [0, 51 / 10],
           fixedrange = True,
           tickmode = ''array'',
           tickvals = [1, 2, 3, 4, 5],
           ticktext = [''1'', ''2'', ''3'', ''4'', ''5''],
           gridcolor = ''lightgray'',
           gridwidth = 1 / 2,
           showgrid = True,
           scaleanchor = Some ''y'',
           axis_layer = ''below traces''\<rparr>,
        yaxis =
          \<lparr>axis_title = ''Impact Materiality'',
           axis_range = [0, 51 / 10],
           fixedrange = True,
           tickmode = ''array'',
           tickvals = [1, 2, 3, 4, 5],
           ticktext = [''1'', ''2'', ''3'', ''4'', ''5''],
           gridcolor = ''lightgray'',
           gridwidth = 1,
           showgrid = True,
           scaleanchor = None,
           axis_layer = ''below traces''\<rparr>\<rparr>\<rparr>"

section \<open>The figure builder\<close>

text \<open>
  \<open>generate_figure\<close> assigns the rewritten labels to the \<open>Sub-Topic\<close> column of the
  frame it is given, so the model returns the frame as the call leaves it together with
  the chart (or the exception) of the call.
\<close>

definition generate_figure :: "dataframe \<Rightarrow> string \<Rightarrow> dataframe \<times> (exn + figure)" where
  "generate_figure df company_name =
     (let df1 = (case map_of df ''Sub-Topic'' of
                   Some col \<Rightarrow> set_col df ''Sub-Topic'' (map (\<lambda>text. StrCell (wrap_label text)) col)
                 | None \<Rightarrow> df);
          title = (if company_name \<noteq> [] then ''<b>'' @ company_name @ '' : Double Materiality Map</b>''
                   else ''<b>Double Materiality Map</b>'')
      in (df1,
          case px_scatter df1 ''Risk'' ''Impact'' ''Sub-Topic'' ''Name of IRO'' title of
            Inl e \<Rightarrow> Inl e
          | Inr fig \<Rightarrow> Inr (update_layout (update_traces fig))))"


section \<open>The upload transport\<close>

fun split_on :: "char \<Rightarrow> string \<Rightarrow> string \<Rightarrow> string list" where
  "split_on sep w [] = [w]"
| "split_on sep w (c # cs) =
     (if c = sep then w # split_on sep [] cs else split_on sep (w @ [c]) cs)"

definition py_split_sep :: "char \<Rightarrow> string \<Rightarrow> string list" where
  \<comment> \<open>\<open>s.split(sep)\<close> for a one-character separator: cuts at every occurrence\<close>
  "py_split_sep sep s = split_on sep [] s"

definition b64_value :: "char \<Rightarrow> nat option" where
  \<comment> \<open>the six-bit value of a character of the base64 alphabet\<close>
  "b64_value c =
     (let n = (of_char c :: nat)
      in if 65 \<le> n \<and> n \<le> 90 then Some (n - 65)
         else if 97 \<le> n \<and> n \<le> 122 then Some (n - 71)
         else if 48 \<le> n \<and> n \<le> 57 then Some (n + 4)
         else if n = 43 then Some 62
         else if n = 47 then Some 63
         else None)"

text \<open>
  The decoder of the standard library in its default, non-strict mode: characters outside
  the alphabet are skipped, a completed pad sequence ends the input, and an unfinished
  group of characters is an error. Bytes are numbers below 256.
\<close>

fun a2b_base64 :: "nat \<Rightarrow> nat \<Rightarrow> nat \<Rightarrow> string \<Rightarrow> nat list \<Rightarrow> exn + nat list" where
  "a2b_base64 quad_pos leftchar pads [] out =
     (if quad_pos \<noteq> 0 then
        (if quad_pos = 1 then
           Inl (Binascii_Error (''Invalid base64-encoded string: number of data characters (''
                  @ str_nat (length out div 3 * 4 + 1)
                  @ '') cannot be 1 more than a multiple of 4''))
         else Inl (Binascii_Error ''Incorrect padding''))
      else Inr out)"
| "a2b_base64 quad_pos leftchar pads (c # cs) out =
     (if c = CHR ''='' then
        (if 2 \<le> quad_pos \<and> 4 \<le> quad_pos + (pads + 1) then Inr out
         else a2b_base64 quad_pos leftchar (if 2 \<le> quad_pos then pads + 1 else pads) cs out)
      else
        (case b64_value c of
           None \<Rightarrow> a2b_base64 quad_pos leftchar pads cs out
         | Some v \<Rightarrow>
            (if quad_pos = 0 then a2b_base64 1 v 0 cs out
             else if quad_pos = 1 then
               a2b_base64 2 (v mod 16) 0 cs (out @ [leftchar * 4 + v div 16])
             else if quad_pos = 2 then
               a2b_base64 3 (v mod 4) 0 cs (out @ [leftchar * 16 + v div 4])
             else a2b_base64 0 0 0 cs (out @ [leftchar * 64 + v]))))"

definition b64decode :: "string \<Rightarrow> exn + nat list" where
  \<comment> \<open>\<open>base64.b64decode(s)\<close> for a \<open>str\<close> argument\<close>
  "b64decode s =
     (if list_ex (\<lambda>c. 128 \<le> (of_char c :: nat)) s
      then Inl (ValueError ''string argument should contain only ASCII characters'')
      else a2b_base64 0 0 0 s [])"

section \<open>The request handlers\<close>

text \<open>
  The only state shared by the requests is the module-level \<open>df_default\<close>. A handler takes
  the globals and returns them as it leaves them, with its result. The spreadsheet parser
  \<open>pd.read_excel\<close> is a parameter: it takes the decoded bytes to a frame or raises.
\<close>

record globals =
  df_default :: dataframe

definition or_str :: "string option \<Rightarrow> string \<Rightarrow> string" where
  \<comment> \<open>\<open>v or d\<close> for an optional string: \<open>None\<close> and the empty string are falsy\<close>
  "or_str v d = (case v of None \<Rightarrow> d | Some s \<Rightarrow> if s = [] then d else s)"

definition update_graph ::
  "(nat list \<Rightarrow> exn + dataframe) \<Rightarrow> globals \<Rightarrow> string option \<Rightarrow> string option \<Rightarrow> string option
     \<Rightarrow> globals \<times> (exn + figure)" where
  "update_graph read_excel g contents company_name filename =
     (case contents of
        None \<Rightarrow>
          (let (df', r) = generate_figure (df_default g) (or_str company_name [])
           in (g\<lparr>df_default := df'\<rparr>, r))
      | Some c \<Rightarrow>
          (case py_split_sep (CHR '','') c of
             [content_type, content_string] \<Rightarrow>
               (case b64decode content_string of
                  Inl e \<Rightarrow> (g, Inl e)
                | Inr decoded \<Rightarrow>
                   (case read_excel decoded of
                      Inl e \<Rightarrow> (g, Inr (px_scatter_title (''Error reading file: '' @ exn_str e)))
                    | Inr df \<Rightarrow>
                       (if \<not> has_required df then
                          (g, Inr (px_scatter_title
                             ''Missing required columns: Name of IRO, Impact, Risk, Sub-Topic''))
                        else
                          (case snd (generate_figure df (or_str company_name [])) of
                             Inl e \<Rightarrow> (g, Inr (px_scatter_title (''Error reading file: '' @ exn_str e)))
                           | Inr fig \<Rightarrow> (g, Inr fig)))))
           | [p] \<Rightarrow> (g, Inl (ValueError ''not enough values to unpack (expected 2, got 1)''))
           | _ \<Rightarrow> (g, Inl (ValueError ''too many values to unpack (expected 2)''))))"

record datetime =
  year :: nat
  month :: nat
  day :: nat

definition zero_pad :: "nat \<Rightarrow> string \<Rightarrow> string" where
  "zero_pad n s = replicate (n - length s) (CHR ''0'') @ s"

definition strftime_Ymd :: "datetime \<Rightarrow> string" where
  \<comment> \<open>\<open>d.strftime('%Y%m%d')\<close>\<close>
  "strftime_Ymd d =
     zero_pad 4 (str_nat (year d)) @ zero_pad 2 (str_nat (month d)) @ zero_pad 2 (str_nat (day d))"

definition py_lower_char :: "char \<Rightarrow> char" where
  "py_lower_char c =
     (let n = (of_char c :: nat)
      in if (65 \<le> n \<and> n \<le> 90) \<or> (192 \<le> n \<and> n \<le> 222 \<and> n \<noteq> 215) then char_of (n + 32) else c)"

definition py_lower :: "string \<Rightarrow> string" where
  "py_lower s = map py_lower_char s"

text \<open>
  The call \<open>fig.to_image(format=, width=, height=, scale=)\<close> as a value: the figure and
  the arguments. The rendering of the PNG bytes is the charting library's and is not part
  of the model.
\<close>

record image_request =
  img_figure :: figure
  img_format :: string
  img_width :: nat
  img_height :: nat
  img_scale :: nat

text \<open>
  A writer is a callable: the number of its positional parameters and the image its body
  renders when it is called. \<open>dcc.send_bytes(src, filename)\<close> calls a writer with one
  argument, the buffer it is to write to; a writer that does not take exactly one
  argument raises \<open>TypeError\<close> at that call.
\<close>

datatype writer = Writer nat image_request

record download =
  dl_content :: image_request
  dl_filename :: string

definition send_bytes :: "writer \<Rightarrow> string \<Rightarrow> exn + download" where
  "send_bytes src filename =
     (case src of
        Writer params body \<Rightarrow>
          if params = 1 then Inr \<lparr>dl_content = body, dl_filename = filename\<rparr>
          else if params = 0 then
            Inl (TypeError
              ''download_chart.<locals>.<lambda>() takes 0 positional arguments but 1 was given'')
          else Inl (TypeError ''<lambda>() missing required positional arguments''))"

definition download_chart_args ::
  "globals \<Rightarrow> datetime \<Rightarrow> nat \<Rightarrow> string option \<Rightarrow> globals \<times> (exn + writer \<times> string)" where
  \<comment> \<open>the body of \<open>download_chart\<close> up to its last call: the figure, the file name, and
      with them the writer and the file name that the handler hands to \<open>dcc.send_bytes\<close>;
      the second argument is the value of \<open>datetime.now()\<close>\<close>
  "download_chart_args g now n_clicks company_name =
     (let (df', r) = generate_figure (df_default g) (or_str company_name []);
          g' = g\<lparr>df_default := df'\<rparr>
      in case r of
           Inl e \<Rightarrow> (g', Inl e)
         | Inr fig \<Rightarrow>
            (let filename = ''materiality_map_''
                   @ py_replace (CHR '' '') (CHR ''_'') (py_lower (or_str company_name ''company''))
                   @ ''_'' @ strftime_Ymd now @ ''.png''
             in (g', Inr (Writer 0 \<lparr>img_figure = fig, img_format = ''png'', img_width = 900,
                                     img_height = 600, img_scale = 2\<rparr>, filename))))"

definition download_chart ::
  "globals \<Rightarrow> datetime \<Rightarrow> nat \<Rightarrow> string option \<Rightarrow> globals \<times> (exn + download)" where
  \<comment> \<open>the writer of the source is \<open>lambda: fig.to_image(...)\<close>, of no parameter\<close>
  "download_chart g now n_clicks company_name =
     (case download_chart_args g now n_clicks company_name of
        (g', Inl e) \<Rightarrow> (g', Inl e)
      | (g', Inr (src, filename)) \<Rightarrow> (g', send_bytes src filename))"

section \<open>Notions of the specification and sample inputs\<close>

text \<open>The specification's wording of the line breaking: the words in groups of four.\<close>

fun lines_of_four :: "'a list \<Rightarrow> 'a list list" where
  "lines_of_four [] = []"
| "lines_of_four (a # b # c # d # e # rest) = [a, b, c, d] # lines_of_four (e # rest)"
| "lines_of_four ws = [ws]"


text \<open>Sample tables: a header row without data, and a template of one item.\<close>

definition header_only :: dataframe where
  "header_only =
     [(''Name of IRO'', []), (''Impact'', []), (''Risk'', []), (''Sub-Topic'', [])]"

definition one_row_template :: dataframe where
  "one_row_template =
     [(''Name of IRO'', [StrCell ''Water Use'']), (''Impact'', [IntCell 3]),
      (''Risk'', [IntCell 2]), (''Sub-Topic'', [StrCell ''Climate_Risk''])]"

text \<open>A table that has every required column but \<open>Risk\<close>.\<close>

definition missing_risk :: dataframe where
  "missing_risk =
     [(''Name of IRO'', [StrCell ''Water Use'']), (''Impact'', [IntCell 3]),
      (''Sub-Topic'', [StrCell ''Environmental''])]"

text \<open>
  Sample uploads as the browser sends them, and sample outcomes of the spreadsheet parser.
\<close>

definition sample_upload :: string where
  "sample_upload =
     ''data:application/vnd.openxmlformats-officedocument.spreadsheetml.sheet;base64,QUJD''"

definition truncated_upload :: string where
  "truncated_upload =
     ''data:application/vnd.openxmlformats-officedocument.spreadsheetml.sheet;base64,A''"


definition parse_missing_risk :: "nat list \<Rightarrow> exn + dataframe" where
  "parse_missing_risk bytes = Inr missing_risk"

definition parse_header_only :: "nat list \<Rightarrow> exn + dataframe" where
  "parse_header_only bytes = Inr header_only"

definition fallback_globals :: globals where
  "fallback_globals = \<lparr>df_default = fallback_data\<rparr>"

definition figure_title :: "string \<Rightarrow> string" where
  \<comment> \<open>the title of the materiality map for a company name\<close>
  "figure_title company_name =
     (if company_name \<noteq> [] then ''<b>'' @ company_name @ '' : Double Materiality Map</b>''
      else ''<b>Double Materiality Map</b>'')"



definition date_20240315 :: datetime where
  "date_20240315 = \<lparr>year = 2024, month = 3, day = 15\<rparr>"



definition point_counts :: "figure \<Rightarrow> nat list" where
  \<comment> \<open>the number of points of each trace; its length is the number of traces\<close>
  "point_counts fig = map (\<lambda>t. length (trace_x t)) (data fig)"




section \<open>Label rewriting\<close>







lemma lines_of_four_length:
  "l \<in> set (lines_of_four ws) \<Longrightarrow> 0 < length l \<and> length l \<le> 4"
  by (induction ws rule: lines_of_four.induct) auto

lemma lines_of_four_full:
  "lines_of_four ws = ls @ [l] \<Longrightarrow> k \<in> set ls \<Longrightarrow> length k = 4"
proof (induction ws arbitrary: ls rule: lines_of_four.induct)
  case (2 a b c d e rest)
  then show ?case by (cases ls) auto
qed simp_all








section \<open>The default dataset at startup\<close>

text \<open>
  C9. At startup the default dataset is the built-in fallback dataset when reading the
  template raised (the file is absent or unreadable), when the parsed template is empty,
  and when it lacks one of the four required columns; otherwise it is the parsed template.
  The fallback dataset has ten items and three distinct sub-topics.
\<close>

theorem startup_default:
  "init_df_default (Inl e) = fallback_data
   \<and> (df_empty df \<or> \<not> has_required df \<longrightarrow> init_df_default (Inr df) = fallback_data)
   \<and> (\<not> df_empty df \<and> has_required df \<longrightarrow> init_df_default (Inr df) = df)
   \<and> list_all (\<lambda>(c, col). length col = 10) fallback_data
   \<and> (\<exists>col. map_of fallback_data ''Sub-Topic'' = Some col \<and> card (set col) = 3)"
proof -
  let ?col = "map StrCell
        [''Environmental'', ''Environmental'', ''Social'', ''Environmental'',
         ''Social'', ''Social'', ''Social'', ''Governance'', ''Environmental'', ''Governance'']"
  have c: "map_of fallback_data ''Sub-Topic'' = Some ?col"
    by (simp add: fallback_data_def)
  have "card (set ?col) = length (remdups ?col)" by (rule card_set)
  also have "\<dots> = 3" by simp
  finally have k: "card (set ?col) = 3" .
  have l: "list_all (\<lambda>(c, col). length col = 10) fallback_data"
    by (simp add: fallback_data_def)
  show ?thesis using c k l by (simp add: init_df_default_def)
qed

theorem startup_default_witness:
  "init_df_default (Inl (Library_Error ''No such file or directory'')) = fallback_data
   \<and> df_empty header_only
   \<and> init_df_default (Inr header_only) = fallback_data
   \<and> \<not> df_empty one_row_template \<and> has_required one_row_template
   \<and> init_df_default (Inr one_row_template) = one_row_template"
proof -
  have e: "df_empty header_only" by (simp add: df_empty_def header_only_def)
  have n: "\<not> df_empty one_row_template \<and> has_required one_row_template"
    by (simp add: df_empty_def has_required_def one_row_template_def required_cols_def columns_def)
  from e n
    startup_default [of "Library_Error ''No such file or directory''" header_only]
    startup_default [of "Library_Error ''No such file or directory''" one_row_template]
  show ?thesis by blast
qed

section \<open>The figure builder\<close>

lemma generate_figure_layout:
  assumes "generate_figure df company_name = (df', Inr fig)"
  shows "\<exists>f0. fig = update_layout (update_traces f0)"
  using assms unfolding generate_figure_def Let_def
  by (auto split: sum.splits)

lemma wrap_label_fallback:
  "wrap_label (StrCell ''Environmental'') = ''Environmental''"
  "wrap_label (StrCell ''Social'') = ''Social''"
  "wrap_label (StrCell ''Governance'') = ''Governance''"
  by code_simp+

lemma generate_figure_fallback:
  "\<exists>fig. generate_figure fallback_data company_name = (fallback_data, Inr fig)"
  by (simp add: generate_figure_def fallback_data_def Let_def px_scatter_def wrap_label_fallback)

text \<open>
  C6. Whatever the values of the dataset and whatever the company name, the chart that
  \<open>generate_figure\<close> returns has the range from 0 to 5.1 on both axes, both axes are
  not zoomable, and the tick marks of both are 1, 2, 3, 4, 5.
\<close>

theorem axes_fixed:
  assumes "generate_figure df company_name = (df', Inr fig)"
  shows "\<exists>lay. layout fig = Some lay
           \<and> axis_range (xaxis lay) = [0, 51 / 10] \<and> axis_range (yaxis lay) = [0, 51 / 10]
           \<and> fixedrange (xaxis lay) \<and> fixedrange (yaxis lay)
           \<and> tickvals (xaxis lay) = [1, 2, 3, 4, 5] \<and> tickvals (yaxis lay) = [1, 2, 3, 4, 5]
           \<and> ticktext (xaxis lay) = [''1'', ''2'', ''3'', ''4'', ''5'']
           \<and> ticktext (yaxis lay) = [''1'', ''2'', ''3'', ''4'', ''5'']"
proof -
  from generate_figure_layout [OF assms] obtain f0 where "fig = update_layout (update_traces f0)" ..
  then show ?thesis by (simp add: update_layout_def)
qed

theorem axes_fixed_witness:
  "\<exists>fig lay. generate_figure fallback_data ''Acme'' = (fallback_data, Inr fig)
      \<and> layout fig = Some lay
      \<and> axis_range (xaxis lay) = [0, 51 / 10] \<and> axis_range (yaxis lay) = [0, 51 / 10]
      \<and> fixedrange (xaxis lay) \<and> fixedrange (yaxis lay)
      \<and> tickvals (xaxis lay) = [1, 2, 3, 4, 5] \<and> tickvals (yaxis lay) = [1, 2, 3, 4, 5]"
proof -
  from generate_figure_fallback [of "''Acme''"] obtain fig
    where g: "generate_figure fallback_data ''Acme'' = (fallback_data, Inr fig)" ..
  from axes_fixed [OF g] g show ?thesis by blast
qed

section \<open>Frames and the figure builder: auxiliary facts\<close>

lemma map_of_set_col:
  "map_of (set_col df k v) k' = (if k' = k then Some v else map_of df k')"
  by (induction df k v rule: set_col.induct) auto


lemma in_columns: "c \<in> set (columns df) \<longleftrightarrow> map_of df c \<noteq> None"
  by (simp add: columns_def map_of_eq_None_iff)

lemma has_required_cols:
  "has_required df \<longleftrightarrow>
     map_of df ''Name of IRO'' \<noteq> None \<and> map_of df ''Impact'' \<noteq> None
     \<and> map_of df ''Risk'' \<noteq> None \<and> map_of df ''Sub-Topic'' \<noteq> None"
  by (simp add: has_required_def required_cols_def in_columns)

lemma update_title [simp]:
  "title_text (update_layout (update_traces fig)) = title_text fig"
  by (simp add: update_layout_def update_traces_def)

lemma generate_figure_required:
  assumes "has_required df"
  shows "\<exists>fig. snd (generate_figure df company_name) = Inr fig
            \<and> title_text fig = figure_title company_name"
proof -
  from assms obtain ns ims rs ss where c:
    "map_of df ''Name of IRO'' = Some ns" "map_of df ''Impact'' = Some ims"
    "map_of df ''Risk'' = Some rs" "map_of df ''Sub-Topic'' = Some ss"
    by (auto simp: has_required_cols)
  then show ?thesis
    by (simp add: generate_figure_def Let_def px_scatter_def map_of_set_col figure_title_def)
qed


lemma sample_upload_split:
  "py_split_sep (CHR '','') sample_upload
     = [''data:application/vnd.openxmlformats-officedocument.spreadsheetml.sheet;base64'', ''QUJD'']"
  by code_simp

lemma sample_upload_decode: "b64decode ''QUJD'' = Inr [65, 66, 67]"
  by code_simp

lemma truncated_upload_split:
  "py_split_sep (CHR '','') truncated_upload
     = [''data:application/vnd.openxmlformats-officedocument.spreadsheetml.sheet;base64'', ''A'']"
  by code_simp

lemma truncated_upload_decode:
  "b64decode ''A'' = Inl (Binascii_Error
     ''Invalid base64-encoded string: number of data characters (1) cannot be 1 more than a multiple of 4'')"
  by code_simp

lemma update_graph_upload:
  assumes "py_split_sep (CHR '','') c = [content_type, content_string]"
    and "b64decode content_string = Inr decoded"
  shows "update_graph read_excel g (Some c) company_name filename =
     (g, Inr (case read_excel decoded of
                Inl e \<Rightarrow> px_scatter_title (''Error reading file: '' @ exn_str e)
              | Inr df \<Rightarrow>
                  if \<not> has_required df then px_scatter_title
                    ''Missing required columns: Name of IRO, Impact, Risk, Sub-Topic''
                  else (case snd (generate_figure df (or_str company_name [])) of
                          Inl e \<Rightarrow> px_scatter_title (''Error reading file: '' @ exn_str e)
                        | Inr fig \<Rightarrow> fig)))"
  using assms by (simp add: update_graph_def split: sum.splits)

lemma update_graph_parse_error:
  assumes "py_split_sep (CHR '','') c = [content_type, content_string]"
    and "b64decode content_string = Inr decoded"
    and "read_excel decoded = Inl e"
  shows "update_graph read_excel g (Some c) company_name filename =
     (g, Inr (px_scatter_title (''Error reading file: '' @ exn_str e)))"
  using assms by (simp add: update_graph_upload)

section \<open>The render handler on an upload\<close>

text \<open>
  C1. The render handler does not turn every failure to decode the upload into a chart:
  the payload is decoded before the \<open>try\<close> block is entered. On an upload in data-URI
  form whose payload is the single character \<open>A\<close>, the decoder raises and the handler
  raises with it, whatever the parser, the globals, the company name and the file name.
\<close>

theorem upload_decode_failure_raises:
  "update_graph read_excel g (Some truncated_upload) company_name filename =
     (g, Inl (Binascii_Error
       ''Invalid base64-encoded string: number of data characters (1) cannot be 1 more than a multiple of 4''))"
  by (simp add: update_graph_def truncated_upload_split truncated_upload_decode)

text \<open>
  C4, as the code has it. For every uploaded table that parses but lacks at least one of
  the four required columns, the render handler returns a chart whose title is the fixed
  text \<open>Missing required columns: Name of IRO, Impact, Risk, Sub-Topic\<close>: it starts with
  \<open>Missing required columns\<close> and names all four required columns, whichever of them
  the table lacks.
\<close>

theorem missing_columns_title:
  assumes "py_split_sep (CHR '','') c = [content_type, content_string]"
    and "b64decode content_string = Inr decoded"
    and "read_excel decoded = Inr df"
    and "\<not> has_required df"
  shows "\<exists>fig. update_graph read_excel g (Some c) company_name filename = (g, Inr fig)
           \<and> title_text fig = ''Missing required columns: '' @ py_join '', '' required_cols
           \<and> prefix ''Missing required columns'' (title_text fig)"
proof -
  have "px_scatter_title ''Missing required columns: Name of IRO, Impact, Risk, Sub-Topic''
      = px_scatter_title (''Missing required columns: '' @ py_join '', '' required_cols)"
    by (simp add: required_cols_def)
  with assms show ?thesis
    by (simp add: update_graph_upload px_scatter_title_def)
qed

theorem missing_columns_title_witness:
  "\<not> has_required missing_risk
   \<and> snd (update_graph parse_missing_risk fallback_globals (Some sample_upload) None None)
       = Inr (px_scatter_title ''Missing required columns: Name of IRO, Impact, Risk, Sub-Topic'')"
proof -
  have n: "\<not> has_required missing_risk"
    by (simp add: has_required_def required_cols_def columns_def missing_risk_def)
  have p: "parse_missing_risk [65, 66, 67] = Inr missing_risk"
    by (simp add: parse_missing_risk_def)
  from missing_columns_title [where read_excel = parse_missing_risk and g = fallback_globals
      and company_name = None and filename = None,
      OF sample_upload_split sample_upload_decode p n]
  obtain fig where
    "update_graph parse_missing_risk fallback_globals (Some sample_upload) None None
       = (fallback_globals, Inr fig)"
    "title_text fig = ''Missing required columns: '' @ py_join '', '' required_cols"
    by blast
  moreover have
    "update_graph parse_missing_risk fallback_globals (Some sample_upload) None None
       = (fallback_globals, Inr (px_scatter_title
            ''Missing required columns: Name of IRO, Impact, Risk, Sub-Topic''))"
    using n by (simp add: update_graph_upload [OF sample_upload_split sample_upload_decode] p)
  ultimately show ?thesis using n by simp
qed

text \<open>
  The claim C4 as the specification states it fails: for the table that lacks only
  \<open>Risk\<close>, the title also names \<open>Impact\<close>, a column the table has.
\<close>

theorem missing_columns_title_counterexample:
  "''Risk'' \<notin> set (columns missing_risk)
   \<and> ''Name of IRO'' \<in> set (columns missing_risk)
   \<and> ''Impact'' \<in> set (columns missing_risk)
   \<and> ''Sub-Topic'' \<in> set (columns missing_risk)
   \<and> snd (update_graph parse_missing_risk fallback_globals (Some sample_upload) None None)
       = Inr (px_scatter_title ''Missing required columns: Name of IRO, Impact, Risk, Sub-Topic'')
   \<and> title_text (px_scatter_title ''Missing required columns: Name of IRO, Impact, Risk, Sub-Topic'')
       = ''Missing required columns: Name of IRO, '' @ ''Impact'' @ '', Risk, Sub-Topic''
   \<and> sublist ''Impact'' (title_text
         (px_scatter_title ''Missing required columns: Name of IRO, Impact, Risk, Sub-Topic''))"
proof -
  have n: "\<not> has_required missing_risk"
    by (simp add: has_required_def required_cols_def columns_def missing_risk_def)
  have p: "parse_missing_risk [65, 66, 67] = Inr missing_risk"
    by (simp add: parse_missing_risk_def)
  have u: "snd (update_graph parse_missing_risk fallback_globals (Some sample_upload) None None)
       = Inr (px_scatter_title ''Missing required columns: Name of IRO, Impact, Risk, Sub-Topic'')"
    using n by (simp add: update_graph_upload [OF sample_upload_split sample_upload_decode] p)
  have t: "title_text (px_scatter_title ''Missing required columns: Name of IRO, Impact, Risk, Sub-Topic'')
       = ''Missing required columns: Name of IRO, '' @ ''Impact'' @ '', Risk, Sub-Topic''"
    by (simp add: px_scatter_title_def)
  have s: "sublist ''Impact'' (title_text
         (px_scatter_title ''Missing required columns: Name of IRO, Impact, Risk, Sub-Topic''))"
    unfolding t sublist_def by blast
  have c: "columns missing_risk = [''Name of IRO'', ''Impact'', ''Sub-Topic'']"
    by (simp add: columns_def missing_risk_def)
  show ?thesis using u t s by (simp add: c)
qed

text \<open>
  C10. An uploaded spreadsheet that parses, has the four required columns and has no data
  row is accepted by the render handler: the chart returned is the one the figure builder
  makes of the empty table, with the title of the materiality map and no error text. The
  startup load rejects the same table and takes the fallback dataset instead.
\<close>

theorem empty_upload_accepted:
  assumes "py_split_sep (CHR '','') c = [content_type, content_string]"
    and "b64decode content_string = Inr decoded"
    and "read_excel decoded = Inr df"
    and "has_required df"
    and "df_empty df"
  shows "\<exists>fig. update_graph read_excel g (Some c) company_name filename = (g, Inr fig)
           \<and> snd (generate_figure df (or_str company_name [])) = Inr fig
           \<and> title_text fig = figure_title (or_str company_name [])
           \<and> \<not> prefix ''Error reading file:'' (title_text fig)
           \<and> \<not> prefix ''Missing required columns'' (title_text fig)
           \<and> init_df_default (Inr df) = fallback_data"
proof -
  from generate_figure_required [OF assms(4), of "or_str company_name []"] obtain fig
    where f: "snd (generate_figure df (or_str company_name [])) = Inr fig"
      and t: "title_text fig = figure_title (or_str company_name [])" by blast
  have "update_graph read_excel g (Some c) company_name filename = (g, Inr fig)"
    using assms f by (simp add: update_graph_upload)
  moreover have "\<not> prefix ''Error reading file:'' (title_text fig)"
    and "\<not> prefix ''Missing required columns'' (title_text fig)"
    unfolding t by (simp_all add: figure_title_def)
  moreover have "init_df_default (Inr df) = fallback_data"
    using assms(5) by (simp add: init_df_default_def)
  ultimately show ?thesis using f t by blast
qed

theorem empty_upload_accepted_witness:
  "has_required header_only \<and> df_empty header_only
   \<and> (\<exists>fig. update_graph parse_header_only fallback_globals (Some sample_upload) (Some ''Acme'') None
              = (fallback_globals, Inr fig)
          \<and> title_text fig = ''<b>Acme : Double Materiality Map</b>'')
   \<and> init_df_default (Inr header_only) = fallback_data"
proof -
  have h: "has_required header_only"
    by (simp add: has_required_def required_cols_def columns_def header_only_def)
  have e: "df_empty header_only" by (simp add: df_empty_def header_only_def)
  have p: "parse_header_only [65, 66, 67] = Inr header_only"
    by (simp add: parse_header_only_def)
  have t: "figure_title (or_str (Some ''Acme'') []) = ''<b>Acme : Double Materiality Map</b>''"
    by (simp add: figure_title_def or_str_def)
  from empty_upload_accepted [where read_excel = parse_header_only and g = fallback_globals
      and company_name = "Some ''Acme''" and filename = None,
      OF sample_upload_split sample_upload_decode p h e]
  show ?thesis using h e unfolding t by blast
qed

section \<open>The export handler\<close>

lemma update_graph_upload_globals:
  "fst (update_graph read_excel g (Some c) company_name filename) = g"
  by (simp add: update_graph_def split: list.splits sum.splits)

lemma download_chart_args_required:
  assumes "snd (generate_figure (df_default g) (or_str company_name [])) = Inr fig"
  shows "snd (download_chart_args g now n_clicks company_name) =
     Inr (Writer 0 \<lparr>img_figure = fig, img_format = ''png'', img_width = 900, img_height = 600,
                     img_scale = 2\<rparr>,
          ''materiality_map_''
            @ py_replace (CHR '' '') (CHR ''_'') (py_lower (or_str company_name ''company''))
            @ ''_'' @ strftime_Ymd now @ ''.png'')"
proof -
  obtain df' where "generate_figure (df_default g) (or_str company_name []) = (df', Inr fig)"
    using assms by (cases "generate_figure (df_default g) (or_str company_name [])") simp
  then show ?thesis by (simp add: download_chart_args_def Let_def)
qed

lemma download_chart_args_raises:
  assumes "snd (generate_figure (df_default g) (or_str company_name [])) = Inl e"
  shows "snd (download_chart_args g now n_clicks company_name) = Inl e"
proof -
  obtain df' where "generate_figure (df_default g) (or_str company_name []) = (df', Inl e)"
    using assms by (cases "generate_figure (df_default g) (or_str company_name [])") simp
  then show ?thesis by (simp add: download_chart_args_def Let_def)
qed

lemma download_chart_result:
  "snd (download_chart g now n_clicks company_name) =
     (case snd (download_chart_args g now n_clicks company_name) of
        Inl e \<Rightarrow> Inl e
      | Inr (src, filename) \<Rightarrow> send_bytes src filename)"
  by (simp add: download_chart_def split: prod.splits sum.splits)

lemma send_bytes_no_parameter:
  "send_bytes (Writer 0 body) filename = Inl (TypeError
     ''download_chart.<locals>.<lambda>() takes 0 positional arguments but 1 was given'')"
  by (simp add: send_bytes_def)

lemma has_required_fallback: "has_required fallback_data"
  by (simp add: has_required_def required_cols_def columns_def fallback_data_def)

text \<open>
  What the export handler prepares: the figure of the default dataset and the company
  name, to be rendered as a PNG of width 900 and height 600 at scale 2; an upload never
  changes it.
\<close>

lemma export_request_from_default:
  assumes "has_required (df_default g)"
  shows "\<exists>fig fname.
      snd (generate_figure (df_default g) (or_str company_name [])) = Inr fig
      \<and> snd (download_chart_args g now n_clicks company_name) =
          Inr (Writer 0 \<lparr>img_figure = fig, img_format = ''png'', img_width = 900,
                          img_height = 600, img_scale = 2\<rparr>, fname)
      \<and> download_chart_args (fst (update_graph read_excel g (Some c) company' filename))
            now n_clicks company_name
          = download_chart_args g now n_clicks company_name"
proof -
  from generate_figure_required [OF assms, of "or_str company_name []"] obtain fig
    where f: "snd (generate_figure (df_default g) (or_str company_name [])) = Inr fig"
    by blast
  from download_chart_args_required [OF f] f show ?thesis
    by (simp add: update_graph_upload_globals)
qed

text \<open>
  C5. The export handler does not serialize the figure. It builds the figure from the
  default dataset and wraps the call of \<open>fig.to_image\<close> (PNG, 900 by 600, scale 2) in a
  writer of no parameter; \<open>dcc.send_bytes\<close> calls the writer with the buffer as its
  argument, so the handler raises \<open>TypeError\<close> (or the exception of the figure builder)
  at every click, whatever the globals, the date and the company name.
\<close>

theorem export_handler_raises:
  "snd (download_chart g now n_clicks company_name) =
     (case snd (generate_figure (df_default g) (or_str company_name [])) of
        Inl e \<Rightarrow> Inl e
      | Inr fig \<Rightarrow> Inl (TypeError
          ''download_chart.<locals>.<lambda>() takes 0 positional arguments but 1 was given''))
   \<and> snd (download_chart fallback_globals date_20240315 1 (Some ''Acme'')) =
       Inl (TypeError
          ''download_chart.<locals>.<lambda>() takes 0 positional arguments but 1 was given'')"
proof -
  have a: "snd (download_chart g now n_clicks company_name) =
     (case snd (generate_figure (df_default g) (or_str company_name [])) of
        Inl e \<Rightarrow> Inl e
      | Inr fig \<Rightarrow> Inl (TypeError
          ''download_chart.<locals>.<lambda>() takes 0 positional arguments but 1 was given''))"
    for g now n_clicks company_name
  proof (cases "snd (generate_figure (df_default g) (or_str company_name []))")
    case (Inl e)
    from download_chart_args_raises [OF this] Inl show ?thesis
      by (simp add: download_chart_result)
  next
    case (Inr fig)
    from download_chart_args_required [OF this] Inr show ?thesis
      by (simp add: download_chart_result send_bytes_no_parameter)
  qed
  have "has_required (df_default fallback_globals)"
    by (simp add: fallback_globals_def has_required_fallback)
  from generate_figure_required [OF this, of "or_str (Some ''Acme'') []"] obtain fig
    where "snd (generate_figure (df_default fallback_globals) (or_str (Some ''Acme'') [])) = Inr fig"
    by blast
  with a [of fallback_globals date_20240315 1 "Some ''Acme''"] a [of g now n_clicks company_name]
  show ?thesis by simp
qed












section \<open>What the figure builder leaves in the frame\<close>














section \<open>A second call of the figure builder on the same frame\<close>


lemma py_isspace_space: "py_isspace (CHR '' '')"
  by code_simp

lemma split_ws_space: "w \<noteq> [] \<Longrightarrow> split_ws w (CHR '' '' # s) = w # split_ws [] s"
  by (simp add: py_isspace_space)



















lemma point_counts_update [simp]:
  "point_counts (update_layout (update_traces fig)) = point_counts fig"
  by (simp add: point_counts_def update_layout_def update_traces_def comp_def)


end
